theory Spec2Isabelle
  imports Complex_Main "HOL-Library.Word"
begin

section \<open>The image request interpreter of source/image-handler/image-request.js\<close>

text \<open>
  The class \<^verbatim>\<open>ImageRequest\<close> turns an API Gateway event into the descriptor of an
  image request: request type, bucket, key, edits, original image, output format and
  response headers. Its methods are embedded below as HOL functions. A JavaScript
  \<^verbatim>\<open>throw\<close> (and a rejected promise) is the \<open>Inl\<close> of a sum type, \<^verbatim>\<open>undefined\<close> is
  the \<open>None\<close> of an option, the fields assigned on \<^verbatim>\<open>this\<close> are a record passed along,
  and \<^verbatim>\<open>process.env\<close> is a record given to every function that reads it.

  A \<open>string\<close> is a list of 8-bit characters, so the model covers JavaScript strings
  whose code units are below 256.
\<close>

subsection \<open>String primitives of the language\<close>

text \<open>\<^verbatim>\<open>s.split(c)\<close> for a separator of one character: never the empty list.\<close>

fun js_split :: "char \<Rightarrow> string \<Rightarrow> string list" where
  "js_split c [] = [[]]"
| "js_split c (x # xs) =
     (if x = c then [] # js_split c xs
      else (case js_split c xs of [] \<Rightarrow> [[x]] | y # ys \<Rightarrow> (x # y) # ys))"

text \<open>\<^verbatim>\<open>xs.join(sep)\<close>.\<close>

fun js_join :: "string \<Rightarrow> string list \<Rightarrow> string" where
  "js_join sep [] = []"
| "js_join sep [x] = x"
| "js_join sep (x # y # ys) = x @ sep @ js_join sep (y # ys)"

text \<open>\<^verbatim>\<open>s.includes(t)\<close>: \<open>t\<close> occurs in \<open>s\<close> as a contiguous substring.\<close>

definition starts_with :: "string \<Rightarrow> string \<Rightarrow> bool" where
  "starts_with t s = (take (length t) s = t)"

fun includes_str :: "string \<Rightarrow> string \<Rightarrow> bool" where
  "includes_str [] t = (t = [])"
| "includes_str (c # cs) t = (starts_with t (c # cs) \<or> includes_str cs t)"

text \<open>
  The characters that the class \<^verbatim>\<open>\s\<close> of a regular expression matches, among the
  code units below 256: tab, line feed, vertical tab, form feed, carriage return,
  space and the no-break space.
\<close>

definition js_whitespace :: "char \<Rightarrow> bool" where
  "js_whitespace c = (of_char c \<in> {9, 10, 11, 12, 13, 32, 160 :: nat})"

subsection \<open>Values produced by JSON.parse\<close>

datatype json =
    JNull
  | JBool bool
  | JNum real
  | JString string
  | JArray "json list"
  | JObject "(string \<times> json) list"

text \<open>
  An object is the list of its own properties in enumeration order, with distinct
  keys. The three operations on it that the program uses: reading a property
  (\<open>None\<close> is \<^verbatim>\<open>undefined\<close>), assigning one (in place when the key exists, appended
  otherwise) and \<^verbatim>\<open>delete\<close>.
\<close>

fun set_prop :: "string \<Rightarrow> json \<Rightarrow> (string \<times> json) list \<Rightarrow> (string \<times> json) list" where
  "set_prop k v [] = [(k, v)]"
| "set_prop k v (p # ps) = (if fst p = k then (k, v) # ps else p # set_prop k v ps)"

definition delete_prop :: "string \<Rightarrow> (string \<times> json) list \<Rightarrow> (string \<times> json) list" where
  "delete_prop k ps = filter (\<lambda>p. fst p \<noteq> k) ps"

text \<open>ToBoolean: the truthiness that \<^verbatim>\<open>if\<close>, \<^verbatim>\<open>&&\<close> and \<^verbatim>\<open>?:\<close> test.\<close>

fun ToBoolean :: "json option \<Rightarrow> bool" where
  "ToBoolean None = False"
| "ToBoolean (Some JNull) = False"
| "ToBoolean (Some (JBool b)) = b"
| "ToBoolean (Some (JNum n)) = (n \<noteq> 0)"
| "ToBoolean (Some (JString s)) = (s \<noteq> [])"
| "ToBoolean (Some (JArray vs)) = True"
| "ToBoolean (Some (JObject ps)) = True"

text \<open>The truthiness of a value that is a string or \<^verbatim>\<open>undefined\<close>.\<close>

definition truthy_str :: "string option \<Rightarrow> bool" where
  "truthy_str s = (case s of None \<Rightarrow> False | Some t \<Rightarrow> t \<noteq> [])"

subsection \<open>Errors\<close>

text \<open>
  The error objects of the program have the fields \<^verbatim>\<open>status\<close>, \<^verbatim>\<open>code\<close> and
  \<^verbatim>\<open>message\<close>; the error of a failed storage call has \<^verbatim>\<open>code\<close> and \<^verbatim>\<open>message\<close>,
  either of which may be \<^verbatim>\<open>undefined\<close>. The language itself throws a SyntaxError
  for a malformed regular expression and a TypeError for a property read on
  \<^verbatim>\<open>undefined\<close> or \<^verbatim>\<open>null\<close>.
\<close>

record aws_error =
  code :: "string option"
  message :: "string option"

record http_error = aws_error +
  status :: nat

datatype exn = Thrown http_error | SyntaxError | TypeError

subsection \<open>The environment of the program\<close>

text \<open>\<^verbatim>\<open>process.env\<close>: each variable is a string or \<^verbatim>\<open>undefined\<close>.\<close>

record process_env =
  PATH_PREFIX :: "string option"
  SOURCE_BUCKETS :: "string option"
  AUTO_WEBP :: "string option"

text \<open>The event of the API Gateway proxy integration, as far as the program reads it.\<close>

record event =
  path :: string
  queryStringParameters :: "(string \<rightharpoonup> string) option"
  headers :: "(string \<rightharpoonup> string) option"

type_synonym buffer = "8 word list"

text \<open>The result of \<^verbatim>\<open>s3.getObject\<close>; dates are milliseconds since the epoch.\<close>

record s3_object =
  Body :: buffer
  s3_ContentType :: "string option"
  s3_Expires :: "int option"
  s3_LastModified :: "int option"
  s3_CacheControl :: "string option"

text \<open>
  The built-in functions of Node.js and the storage client are not part of the
  repository. They are a parameter of the model:
  \<^item> \<open>RegExp src\<close> is \<^verbatim>\<open>new RegExp(src)\<close>: \<open>None\<close> when the constructor throws a
    SyntaxError, otherwise the function that gives, for a subject string, the index
    and the length of the first match (\<open>None\<close> when there is none);
  \<^item> \<open>Buffer_from_base64 s\<close> is \<^verbatim>\<open>Buffer.from(s, 'base64')\<close>, \<open>Buffer_toString\<close> is
    \<^verbatim>\<open>buf.toString()\<close>, and \<open>JSON_parse s\<close> is \<^verbatim>\<open>JSON.parse(s)\<close>, \<open>None\<close> when it throws;
  \<^item> \<open>Number_toString\<close> is the conversion of a number to a string, and
    \<open>Date_toUTCString t\<close> is \<^verbatim>\<open>new Date(t).toUTCString()\<close>;
  \<^item> \<open>S3_getObject b k\<close> is the outcome of \<^verbatim>\<open>s3.getObject({Bucket: b, Key: k}).promise()\<close>.
\<close>

record platform =
  RegExp :: "string \<Rightarrow> (string \<Rightarrow> (nat \<times> nat) option) option"
  Buffer_from_base64 :: "string \<Rightarrow> buffer"
  Buffer_toString :: "buffer \<Rightarrow> string"
  JSON_parse :: "string \<Rightarrow> json option"
  Number_toString :: "real \<Rightarrow> string"
  Date_toUTCString :: "int \<Rightarrow> string"
  S3_getObject :: "string \<Rightarrow> string \<Rightarrow> aws_error + s3_object"

subsection \<open>getAllowedSourceBuckets\<close>

definition NoSourceBuckets :: http_error where
  "NoSourceBuckets =
     \<lparr>code = Some ''GetAllowedSourceBuckets::NoSourceBuckets'',
      message = Some ''The SOURCE_BUCKETS variable could not be read. Please check that it is not empty and contains at least one source bucket, or multiple buckets separated by commas. Spaces can be provided between commas and bucket names, these will be automatically parsed out when decoding.'',
      status = 400\<rparr>"

text \<open>
  \<^verbatim>\<open>sourceBuckets.replace(/\s+/g, '')\<close> deletes every whitespace character of the
  string, wherever it stands.
\<close>

definition getAllowedSourceBuckets :: "process_env \<Rightarrow> exn + string list" where
  "getAllowedSourceBuckets env =
     (case SOURCE_BUCKETS env of
        None \<Rightarrow> Inl (Thrown NoSourceBuckets)
      | Some sourceBuckets \<Rightarrow>
          (let formatted = filter (\<lambda>c. \<not> js_whitespace c) sourceBuckets;
               buckets = js_split CHR '','' formatted
           in Inr buckets))"

text \<open>
  The specification's reading of the same method, for comparison: the string is
  split on commas and the whitespace around each entry is stripped.
\<close>

definition spec_trim :: "string \<Rightarrow> string" where
  "spec_trim e = rev (dropWhile js_whitespace (rev (dropWhile js_whitespace e)))"

definition spec_whitelist :: "string \<Rightarrow> string list" where
  "spec_whitelist s = map spec_trim (js_split CHR '','' s)"

subsection \<open>removePathPrefix\<close>

text \<open>
  A template literal renders \<^verbatim>\<open>undefined\<close> as the text ``undefined''.
\<close>

definition template_str :: "string option \<Rightarrow> string" where
  "template_str s = (case s of None \<Rightarrow> ''undefined'' | Some t \<Rightarrow> t)"

text \<open>
  \<^verbatim>\<open>s.replace(re, '')\<close> for a regular expression without the global flag: the
  first match is cut out, and a string without a match is returned as it is.
\<close>

definition replace_first :: "(string \<Rightarrow> (nat \<times> nat) option) \<Rightarrow> string \<Rightarrow> string" where
  "replace_first re s =
     (case re s of None \<Rightarrow> s | Some (i, n) \<Rightarrow> take i s @ drop (i + n) s)"

definition removePathPrefix :: "platform \<Rightarrow> process_env \<Rightarrow> string \<Rightarrow> exn + string" where
  "removePathPrefix rt env p =
     (let prefix = PATH_PREFIX env in
      case RegExp rt (''^('' @ template_str prefix @ '')'') of
        None \<Rightarrow> Inl SyntaxError
      | Some re \<Rightarrow> Inr (replace_first re p))"

subsection \<open>parseImageBucket\<close>

definition CannotAccessBucket :: http_error where
  "CannotAccessBucket =
     \<lparr>code = Some ''ImageBucket::CannotAccessBucket'',
      message = Some ''The bucket you specified could not be accessed. Please check that the bucket is specified in your SOURCE_BUCKETS.'',
      status = 403\<rparr>"

definition CannotFindBucket :: http_error where
  "CannotFindBucket =
     \<lparr>code = Some ''ImageBucket::CannotFindBucket'',
      message = Some ''The bucket you specified could not be found. Please check the spelling of the bucket name in your request.'',
      status = 404\<rparr>"

text \<open>
  \<open>js_split\<close> never returns the empty list (lemma \<open>js_split_not_Nil\<close> below), so
  element 0 of its result is \<open>hd\<close>. The regular expression is only built when
  \<^verbatim>\<open>includes\<close> has answered false, as \<^verbatim>\<open>||\<close> evaluates.
\<close>

definition parseImageBucket :: "platform \<Rightarrow> process_env \<Rightarrow> event \<Rightarrow> string \<Rightarrow> exn + string" where
  "parseImageBucket rt env ev rtype =
     (if rtype = ''Default'' then
        (case removePathPrefix rt env (path ev) of
           Inl e \<Rightarrow> Inl e
         | Inr p \<Rightarrow>
             (let b = hd (js_split CHR ''/'' p) in
              if b \<noteq> [] then
                (case getAllowedSourceBuckets env of
                   Inl e \<Rightarrow> Inl e
                 | Inr sourceBuckets \<Rightarrow>
                     if b \<in> set sourceBuckets then Inr b
                     else
                       (case RegExp rt (''^'' @ hd sourceBuckets @ ''$'') of
                          None \<Rightarrow> Inl SyntaxError
                        | Some re \<Rightarrow>
                            if re b \<noteq> None then Inr b
                            else Inl (Thrown CannotAccessBucket)))
              else
                (case getAllowedSourceBuckets env of
                   Inl e \<Rightarrow> Inl e
                 | Inr sourceBuckets \<Rightarrow> Inr (hd sourceBuckets))))
      else Inl (Thrown CannotFindBucket))"

subsection \<open>parseImageKey\<close>

definition CannotFindImage :: http_error where
  "CannotFindImage =
     \<lparr>code = Some ''ImageEdits::CannotFindImage'',
      message = Some ''The image you specified could not be found. Please check your request syntax as well as the bucket you specified to ensure it exists.'',
      status = 404\<rparr>"

text \<open>The key that the method computes from the path left by \<open>removePathPrefix\<close>.\<close>

definition key_of_path :: "string \<Rightarrow> string" where
  "key_of_path p =
     (let cleanPath = hd (js_split CHR ''#'' p);
          cleanPath = hd (js_split CHR ''?'' cleanPath)
      in js_join ''/'' (drop 1 (js_split CHR ''/'' cleanPath)))"

definition parseImageKey :: "platform \<Rightarrow> process_env \<Rightarrow> event \<Rightarrow> string \<Rightarrow> exn + string" where
  "parseImageKey rt env ev rtype =
     (case (if rtype = ''Default'' then
              (case removePathPrefix rt env (path ev) of
                 Inl e \<Rightarrow> Inl e
               | Inr p \<Rightarrow> Inr (key_of_path p))
            else Inr []) of
        Inl e \<Rightarrow> Inl e
      | Inr k \<Rightarrow> if k = [] then Inl (Thrown CannotFindImage) else Inr k)"

subsection \<open>decodeRequest and parseImageEdits\<close>

definition CannotDecodeRequest :: http_error where
  "CannotDecodeRequest =
     \<lparr>code = Some ''DecodeRequest::CannotDecodeRequest'',
      message = Some ''The image request you provided could not be decoded. Please check that your request is base64 encoded properly and refer to the documentation for additional guidance.'',
      status = 400\<rparr>"

definition CannotParseEdits :: http_error where
  "CannotParseEdits =
     \<lparr>code = Some ''ImageEdits::CannotParseEdits'',
      message = Some ''The edits you provided could not be parsed. Please check the syntax of your request and refer to the documentation for additional guidance.'',
      status = 400\<rparr>"

text \<open>The result \<open>Inr None\<close> is the \<^verbatim>\<open>undefined\<close> returned for a missing argument.\<close>

definition decodeRequest :: "platform \<Rightarrow> string option \<Rightarrow> exn + json option" where
  "decodeRequest rt encoded =
     (case encoded of
        None \<Rightarrow> Inr None
      | Some enc \<Rightarrow>
          (let toBuffer = Buffer_from_base64 rt enc in
           case JSON_parse rt (Buffer_toString rt toBuffer) of
             None \<Rightarrow> Inl (Thrown CannotDecodeRequest)
           | Some v \<Rightarrow> Inr (Some v)))"

definition parseImageEdits :: "platform \<Rightarrow> event \<Rightarrow> string \<Rightarrow> exn + json" where
  "parseImageEdits rt ev rtype =
     (if rtype = ''Default'' then
        (case queryStringParameters ev of
           None \<Rightarrow> Inr (JObject [])
         | Some params \<Rightarrow>
             (let rawData = params ''edits'' in
              case decodeRequest rt rawData of
                Inl e \<Rightarrow> Inl e
              | Inr decoded \<Rightarrow>
                  (case decoded of
                     None \<Rightarrow> Inr (JObject [])
                   | Some JNull \<Rightarrow> Inr (JObject [])
                   | Some v \<Rightarrow> Inr v)))
      else Inl (Thrown CannotParseEdits))"

subsection \<open>parseRequestType\<close>

definition parseRequestType :: "event \<Rightarrow> string" where
  "parseRequestType ev = ''Default''"

subsection \<open>The descriptor and getOriginalImage\<close>

text \<open>The fields that the methods assign on \<^verbatim>\<open>this\<close>; \<open>None\<close> is a field not yet set.\<close>

record image_request =
  requestType :: "string option"
  bucket :: "string option"
  key :: "string option"
  edits :: "json option"
  originalImage :: "buffer option"
  outputFormat :: "json option"
  ContentType :: "string option"
  Expires :: "string option"
  LastModified :: "string option"
  CacheControl :: "string option"

definition new_ImageRequest :: image_request where
  "new_ImageRequest =
     \<lparr>requestType = None, bucket = None, key = None, edits = None, originalImage = None,
      outputFormat = None, ContentType = None, Expires = None, LastModified = None,
      CacheControl = None\<rparr>"

text \<open>
  The method returns the body and leaves the response headers on \<^verbatim>\<open>this\<close>. A failed
  storage call is caught and rejected as an object with a status.
\<close>

definition getOriginalImage ::
    "platform \<Rightarrow> image_request \<Rightarrow> string \<Rightarrow> string \<Rightarrow> exn + buffer \<times> image_request" where
  "getOriginalImage rt this b k =
     (case S3_getObject rt b k of
        Inl err \<Rightarrow>
          Inl (Thrown
            \<lparr>code = code err, message = message err,
             status = (if Some ''NoSuchKey'' = code err then 404 else 500)\<rparr>)
      | Inr obj \<Rightarrow>
          (let this = (if truthy_str (s3_ContentType obj)
                       then this\<lparr>ContentType := s3_ContentType obj\<rparr>
                       else this\<lparr>ContentType := Some ''image''\<rparr>);
               this = (case s3_Expires obj of
                         Some t \<Rightarrow> this\<lparr>Expires := Some (Date_toUTCString rt t)\<rparr>
                       | None \<Rightarrow> this);
               this = (case s3_LastModified obj of
                         Some t \<Rightarrow> this\<lparr>LastModified := Some (Date_toUTCString rt t)\<rparr>
                       | None \<Rightarrow> this);
               this = (if truthy_str (s3_CacheControl obj)
                       then this\<lparr>CacheControl := s3_CacheControl obj\<rparr>
                       else this\<lparr>CacheControl := Some ''max-age=31536000,public''\<rparr>)
           in Inr (Body obj, this)))"

subsection \<open>getOutputFormat\<close>

text \<open>
  Reading one of the properties \<^verbatim>\<open>toFormat\<close> and \<^verbatim>\<open>outputFormat\<close> of a value other
  than \<^verbatim>\<open>null\<close>: an object gives its own property, any other value gives
  \<^verbatim>\<open>undefined\<close>, since no prototype defines these names.
\<close>

fun get_prop :: "json \<Rightarrow> string \<Rightarrow> json option" where
  "get_prop (JObject ps) k = map_of ps k"
| "get_prop v k = None"

text \<open>
  \<^verbatim>\<open>autoWebP && event.headers.Accept && event.headers.Accept.includes('image/webp')\<close>:
  the headers are only read when \<^verbatim>\<open>AUTO_WEBP\<close> is a non-empty string, and reading
  \<^verbatim>\<open>Accept\<close> of missing headers is a TypeError.
\<close>

definition accepts_webp :: "process_env \<Rightarrow> event \<Rightarrow> exn + bool" where
  "accepts_webp env ev =
     (let autoWebP = AUTO_WEBP env in
      if truthy_str autoWebP then
        (case headers ev of
           None \<Rightarrow> Inl TypeError
         | Some h \<Rightarrow> Inr (truthy_str (h ''Accept'') \<and>
                          (case h ''Accept'' of
                             None \<Rightarrow> False
                           | Some a \<Rightarrow> includes_str a ''image/webp'')))
      else Inr False)"

text \<open>The result \<open>Some JNull\<close> is the \<^verbatim>\<open>null\<close> of the last line of the method.\<close>

definition getOutputFormat ::
    "process_env \<Rightarrow> image_request \<Rightarrow> event \<Rightarrow> json \<Rightarrow> exn + json option" where
  "getOutputFormat env this ev ed =
     (case accepts_webp env ev of
        Inl e \<Rightarrow> Inl e
      | Inr True \<Rightarrow> Inr (Some (JString ''webp''))
      | Inr False \<Rightarrow>
          if requestType this = Some ''Default'' then
            (if ed = JNull then Inl TypeError else Inr (get_prop ed ''outputFormat''))
          else Inr (Some JNull))"

subsection \<open>setup\<close>

text \<open>The results of a list of steps, or the error of the first step that throws.\<close>

fun sequence_exn :: "(exn + 'a) list \<Rightarrow> exn + 'a list" where
  "sequence_exn [] = Inr []"
| "sequence_exn (r # rs) =
     (case r of
        Inl e \<Rightarrow> Inl e
      | Inr x \<Rightarrow> (case sequence_exn rs of Inl e \<Rightarrow> Inl e | Inr xs \<Rightarrow> Inr (x # xs)))"

text \<open>
  The conversion of a value to a string inside a template literal. An object is
  converted by its method \<^verbatim>\<open>toString\<close> and then by \<^verbatim>\<open>valueOf\<close>. A parsed object
  inherits both: the first gives the text \<^verbatim>\<open>[object Object]\<close>. An own property
  \<^verbatim>\<open>toString\<close> hides the inherited method and is never a function, and
  \<^verbatim>\<open>valueOf\<close>, inherited or own, gives no primitive value, so the conversion throws a
  TypeError. An array is converted by \<^verbatim>\<open>join\<close>, which renders \<^verbatim>\<open>null\<close> as the empty
  text and converts every other element in turn.
\<close>

fun ToString :: "(real \<Rightarrow> string) \<Rightarrow> json \<Rightarrow> exn + string" where
  "ToString num JNull = Inr ''null''"
| "ToString num (JBool b) = Inr (if b then ''true'' else ''false'')"
| "ToString num (JNum n) = Inr (num n)"
| "ToString num (JString s) = Inr s"
| "ToString num (JArray vs) =
     (case sequence_exn (map (\<lambda>v. if v = JNull then Inr [] else ToString num v) vs) of
        Inl e \<Rightarrow> Inl e
      | Inr ss \<Rightarrow> Inr (js_join '','' ss))"
| "ToString num (JObject ps) =
     (if ''toString'' \<in> fst ` set ps then Inl TypeError else Inr ''[object Object]'')"

definition acceptedValues :: "string list" where
  "acceptedValues = [''jpeg'', ''png'', ''webp'', ''tiff'', ''heif'']"

text \<open>
  \<^verbatim>\<open>Object.keys(this.edits).filter(key => acceptedValues.includes(key))\<close>. The keys of
  an array or of a string are decimal indices and a number or a boolean has none, so
  only an object can have a key among the accepted values; \<^verbatim>\<open>Object.keys\<close> of
  \<^verbatim>\<open>null\<close> or \<^verbatim>\<open>undefined\<close> is a TypeError.
\<close>

definition codec_keys :: "(string \<times> json) list \<Rightarrow> string list" where
  "codec_keys ps = filter (\<lambda>k. k \<in> set acceptedValues) (map fst ps)"

definition quality_keys :: "json option \<Rightarrow> exn + string list" where
  "quality_keys ed =
     (case ed of
        None \<Rightarrow> Inl TypeError
      | Some JNull \<Rightarrow> Inl TypeError
      | Some (JObject ps) \<Rightarrow> Inr (codec_keys ps)
      | Some v \<Rightarrow> Inr [])"

text \<open>
  Lines 44 to 57 of \<^verbatim>\<open>setup\<close>, the block under the comment ``Fix quality for Thumbor
  and Custom request type if outputFormat is different from quality type''. The
  template literal of line 48 converts the output format to a string, which can
  throw. The value moved is \<^verbatim>\<open>this.edits[qualityKey]\<close>; a key returned by \<open>quality_keys\<close> is a
  key of the object, so the read finds it.
\<close>

definition fixQuality :: "platform \<Rightarrow> image_request \<Rightarrow> exn + image_request" where
  "fixQuality rt this =
     (case outputFormat this of
        None \<Rightarrow> Inr this
      | Some fmt \<Rightarrow>
          if ToBoolean (Some fmt) then
            (case ToString (Number_toString rt) fmt of
               Inl e \<Rightarrow> Inl e
             | Inr text \<Rightarrow>
            (let this = this\<lparr>ContentType := Some (''image/'' @ text)\<rparr> in
             if requestType this \<in> {Some ''Custom'', Some ''Thumbor''} \<and>
                fmt \<in> JString ` set acceptedValues then
               (case quality_keys (edits this) of
                  Inl e \<Rightarrow> Inl e
                | Inr ks \<Rightarrow>
                    (case ks of
                       [] \<Rightarrow> Inr this
                     | qualityKey # _ \<Rightarrow>
                         if qualityKey \<noteq> [] \<and> JString qualityKey \<noteq> fmt then
                           (case (edits this, fmt) of
                              (Some (JObject ps), JString f) \<Rightarrow>
                                (case map_of ps qualityKey of
                                   Some qualityValue \<Rightarrow>
                                     Inr (this\<lparr>edits := Some (JObject
                                       (delete_prop qualityKey (set_prop f qualityValue ps)))\<rparr>)
                                 | None \<Rightarrow> Inr this)
                            | _ \<Rightarrow> Inr this)
                         else Inr this))
             else Inr this))
          else Inr this)"

text \<open>
  Lines 37 to 41 of \<^verbatim>\<open>setup\<close>: the field \<^verbatim>\<open>outputFormat\<close> is assigned from
  \<^verbatim>\<open>toFormat\<close> of the edits, else from the result of \<open>getOutputFormat\<close>, and is left
  as it is when neither passes the test.
\<close>

definition choose_format :: "image_request \<Rightarrow> json \<Rightarrow> json option \<Rightarrow> image_request" where
  "choose_format this ed fmt =
     (if ToBoolean (Some ed) \<and> ToBoolean (get_prop ed ''toFormat'')
      then this\<lparr>outputFormat := get_prop ed ''toFormat''\<rparr>
      else if ToBoolean fmt then this\<lparr>outputFormat := fmt\<rparr>
      else this)"

text \<open>
  \<^verbatim>\<open>setup\<close> on a new instance. Each stage that throws ends the method with that
  error, which the \<^verbatim>\<open>catch\<close> turns into the rejection of the promise.
\<close>

definition setup_request :: "platform \<Rightarrow> process_env \<Rightarrow> event \<Rightarrow> exn + image_request" where
  "setup_request rt env ev =
     (let rtype = parseRequestType ev;
          this = new_ImageRequest\<lparr>requestType := Some rtype\<rparr> in
      case parseImageBucket rt env ev rtype of
        Inl e \<Rightarrow> Inl e
      | Inr b \<Rightarrow>
      (let this = this\<lparr>bucket := Some b\<rparr> in
       case parseImageKey rt env ev rtype of
         Inl e \<Rightarrow> Inl e
       | Inr k \<Rightarrow>
       (let this = this\<lparr>key := Some k\<rparr> in
        case parseImageEdits rt ev rtype of
          Inl e \<Rightarrow> Inl e
        | Inr ed \<Rightarrow>
        (let this = this\<lparr>edits := Some ed\<rparr> in
         case getOriginalImage rt this b k of
           Inl e \<Rightarrow> Inl e
         | Inr (img, this) \<Rightarrow>
         (let this = this\<lparr>originalImage := Some img\<rparr> in
          case getOutputFormat env this ev ed of
            Inl e \<Rightarrow> Inl e
          | Inr fmt \<Rightarrow> fixQuality rt (choose_format this ed fmt))))))"

subsection \<open>A sample platform and sample requests\<close>

text \<open>
  The examples of this theory run on the following platform. Its regular expressions
  cover the two shapes of pattern that the program builds, \<^verbatim>\<open>^(text)\<close> and
  \<^verbatim>\<open>^text$\<close>, for a text of letters, digits, \<^verbatim>\<open>/\<close>, \<^verbatim>\<open>-\<close> and \<^verbatim>\<open>_\<close> only:
  such a text matches itself and nothing else, so the first pattern matches the
  strings that start with the text, at index 0 and over its length, and the second
  matches the text alone. Every other pattern is outside the sample and no example
  uses one. The other functions are tables of the values of the Node.js built-ins at
  the payloads used below; no example reads them anywhere else.
\<close>

definition plain_char :: "char \<Rightarrow> bool" where
  "plain_char c =
     (let n = (of_char c :: nat) in
      (97 \<le> n \<and> n \<le> 122) \<or> (65 \<le> n \<and> n \<le> 90) \<or> (45 \<le> n \<and> n \<le> 57) \<and> n \<noteq> 46 \<or> n = 95)"

definition sample_RegExp :: "string \<Rightarrow> (string \<Rightarrow> (nat \<times> nat) option) option" where
  "sample_RegExp src =
     (if 3 \<le> length src \<and> take 2 src = ''^('' \<and> last src = CHR '')'' \<and>
         list_all plain_char (butlast (drop 2 src))
      then Some (\<lambda>s. if starts_with (butlast (drop 2 src)) s
                      then Some (0, length (butlast (drop 2 src))) else None)
      else if 2 \<le> length src \<and> take 1 src = ''^'' \<and> last src = CHR ''$'' \<and>
         list_all plain_char (butlast (drop 1 src))
      then Some (\<lambda>s. if s = butlast (drop 1 src) then Some (0, length s) else None)
      else None)"

definition ascii_bytes :: "string \<Rightarrow> buffer" where
  "ascii_bytes s = map (\<lambda>c. of_nat (of_char c)) s"

definition text_resize :: string where
  \<open>text_resize = ''{"resize":{"width":100}}''\<close>

definition text_format :: string where
  \<open>text_format = ''{"outputFormat":"png"}''\<close>

definition text_override :: string where
  \<open>text_override = ''{"toFormat":"png","outputFormat":"jpeg"}''\<close>

definition text_unprintable :: string where
  \<open>text_unprintable = ''{"toFormat":{"toString":"x"}}''\<close>

definition text_truncated :: string where
  \<open>text_truncated = ''{"resize":''\<close>

definition sample_Buffer_from_base64 :: "string \<Rightarrow> buffer" where
  "sample_Buffer_from_base64 s =
     (if s = ''eyJyZXNpemUiOnsid2lkdGgiOjEwMH19'' then ascii_bytes text_resize
      else if s = ''eyJvdXRwdXRGb3JtYXQiOiJwbmcifQ=='' then ascii_bytes text_format
      else if s = ''eyJ0b0Zvcm1hdCI6InBuZyIsIm91dHB1dEZvcm1hdCI6ImpwZWcifQ==''
      then ascii_bytes text_override
      else if s = ''eyJyZXNpemUiOg=='' then ascii_bytes text_truncated
      else if s = ''eyJ0b0Zvcm1hdCI6eyJ0b1N0cmluZyI6IngifX0='' then ascii_bytes text_unprintable
      else [])"

definition sample_Buffer_toString :: "buffer \<Rightarrow> string" where
  "sample_Buffer_toString bs =
     (if bs = ascii_bytes text_resize then text_resize
      else if bs = ascii_bytes text_format then text_format
      else if bs = ascii_bytes text_override then text_override
      else if bs = ascii_bytes text_truncated then text_truncated
      else if bs = ascii_bytes text_unprintable then text_unprintable
      else [])"

definition sample_JSON_parse :: "string \<Rightarrow> json option" where
  "sample_JSON_parse s =
     (if s = text_resize then Some (JObject [(''resize'', JObject [(''width'', JNum 100)])])
      else if s = text_format then Some (JObject [(''outputFormat'', JString ''png'')])
      else if s = text_override
      then Some (JObject [(''toFormat'', JString ''png''), (''outputFormat'', JString ''jpeg'')])
      else if s = text_unprintable
      then Some (JObject [(''toFormat'', JObject [(''toString'', JString ''x'')])])
      else None)"

definition sample_Number_toString :: "real \<Rightarrow> string" where
  "sample_Number_toString n = (if n = 80 then ''80'' else if n = 100 then ''100'' else ''0'')"

definition sample_Date_toUTCString :: "int \<Rightarrow> string" where
  "sample_Date_toUTCString t = ''Thu, 01 Jan 1970 00:00:00 GMT''"

definition sample_image :: s3_object where
  "sample_image =
     \<lparr>Body = [137, 80, 78, 71], s3_ContentType = Some ''image/png'', s3_Expires = None,
      s3_LastModified = Some 0, s3_CacheControl = None\<rparr>"

definition sample_S3_getObject :: "string \<Rightarrow> string \<Rightarrow> aws_error + s3_object" where
  "sample_S3_getObject b k =
     (if b = ''images'' \<and> k = ''a/b/c.png'' then Inr sample_image
      else if b = ''images''
      then Inl \<lparr>code = Some ''NoSuchKey'', message = Some ''The specified key does not exist.''\<rparr>
      else Inl \<lparr>code = Some ''AccessDenied'', message = Some ''Access Denied''\<rparr>)"

definition sample_platform :: platform where
  "sample_platform =
     \<lparr>RegExp = sample_RegExp,
      Buffer_from_base64 = sample_Buffer_from_base64,
      Buffer_toString = sample_Buffer_toString,
      JSON_parse = sample_JSON_parse,
      Number_toString = sample_Number_toString,
      Date_toUTCString = sample_Date_toUTCString,
      S3_getObject = sample_S3_getObject\<rparr>"

definition sample_env :: process_env where
  "sample_env = \<lparr>PATH_PREFIX = Some ''/'', SOURCE_BUCKETS = Some ''images, thumbs'', AUTO_WEBP = None\<rparr>"

definition sample_event :: event where
  "sample_event =
     \<lparr>path = ''/images/a/b/c.png'',
      queryStringParameters = Some [''edits'' \<mapsto> ''eyJyZXNpemUiOnsid2lkdGgiOjEwMH19''],
      headers = Some [''Accept'' \<mapsto> ''image/webp,*/*'']\<rparr>"

text \<open>The descriptor that the sample request produces.\<close>

definition sample_descriptor :: image_request where
  "sample_descriptor =
     \<lparr>requestType = Some ''Default'', bucket = Some ''images'', key = Some ''a/b/c.png'',
      edits = Some (JObject [(''resize'', JObject [(''width'', JNum 100)])]),
      originalImage = Some [137, 80, 78, 71], outputFormat = None,
      ContentType = Some ''image/png'', Expires = None,
      LastModified = Some ''Thu, 01 Jan 1970 00:00:00 GMT'',
      CacheControl = Some ''max-age=31536000,public''\<rparr>"

text \<open>
  Two more requests for the same image, from a client that accepts WebP: one asks for
  the output format \<^verbatim>\<open>png\<close>, the other has both \<^verbatim>\<open>toFormat\<close> and \<^verbatim>\<open>outputFormat\<close>.
\<close>

definition format_event :: event where
  "format_event =
     \<lparr>path = ''/images/a/b/c.png'',
      queryStringParameters = Some [''edits'' \<mapsto> ''eyJvdXRwdXRGb3JtYXQiOiJwbmcifQ==''],
      headers = Some [''Accept'' \<mapsto> ''image/webp,*/*'']\<rparr>"

definition override_event :: event where
  "override_event =
     \<lparr>path = ''/images/a/b/c.png'',
      queryStringParameters =
        Some [''edits'' \<mapsto> ''eyJ0b0Zvcm1hdCI6InBuZyIsIm91dHB1dEZvcm1hdCI6ImpwZWcifQ==''],
      headers = Some [''Accept'' \<mapsto> ''image/webp,*/*'']\<rparr>"

text \<open>
  A request whose \<^verbatim>\<open>toFormat\<close> is an object with a property \<^verbatim>\<open>toString\<close>, which no
  template literal can render.
\<close>

definition unprintable_event :: event where
  "unprintable_event =
     \<lparr>path = ''/images/a/b/c.png'',
      queryStringParameters = Some [''edits'' \<mapsto> ''eyJ0b0Zvcm1hdCI6eyJ0b1N0cmluZyI6IngifX0=''],
      headers = Some [''Accept'' \<mapsto> ''image/webp,*/*'']\<rparr>"

definition webp_env :: process_env where
  "webp_env = \<lparr>PATH_PREFIX = Some ''/'', SOURCE_BUCKETS = Some ''images, thumbs'', AUTO_WEBP = Some ''Yes''\<rparr>"

section \<open>Properties\<close>

subsection \<open>Splitting and joining\<close>

lemma js_split_not_Nil: "js_split c s \<noteq> []"
  by (induction s) (auto split: list.splits)

lemma hd_js_split: "hd (js_split c s) = takeWhile (\<lambda>x. x \<noteq> c) s"
  by (induction s) (auto split: list.splits simp: js_split_not_Nil)

lemma js_join_Cons_Cons: "js_join sep ((x # y) # ys) = x # js_join sep (y # ys)"
  by (cases ys) auto

lemma js_join_js_split: "js_join [c] (js_split c s) = s"
proof (induction s)
  case Nil
  then show ?case by simp
next
  case (Cons x xs)
  obtain y ys where spl: "js_split c xs = y # ys"
    using js_split_not_Nil [of c xs] by (cases "js_split c xs") auto
  show ?case
  proof (cases "x = c")
    case True
    then show ?thesis using Cons spl by simp
  next
    case False
    then show ?thesis using Cons spl by (simp add: js_join_Cons_Cons)
  qed
qed

lemma js_join_drop_js_split:
  "js_join [c] (drop 1 (js_split c s)) = tl (dropWhile (\<lambda>x. x \<noteq> c) s)"
proof (induction s)
  case Nil
  then show ?case by simp
next
  case (Cons x xs)
  obtain y ys where spl: "js_split c xs = y # ys"
    using js_split_not_Nil [of c xs] by (cases "js_split c xs") auto
  show ?case
  proof (cases "x = c")
    case True
    then show ?thesis using js_join_js_split [of c xs] by simp
  next
    case False
    then show ?thesis using Cons spl by simp
  qed
qed

text \<open>
  The key is what follows the first \<^verbatim>\<open>/\<close> of the path cut at its first \<^verbatim>\<open>#\<close> and
  then at its first \<^verbatim>\<open>?\<close>; it is empty when no \<^verbatim>\<open>/\<close> is left there.
\<close>

lemma key_of_path_eq:
  "key_of_path p =
     tl (dropWhile (\<lambda>x. x \<noteq> CHR ''/'')
       (takeWhile (\<lambda>x. x \<noteq> CHR ''?'') (takeWhile (\<lambda>x. x \<noteq> CHR ''#'') p)))"
  using js_join_drop_js_split [of "CHR ''/''"]
  by (simp add: key_of_path_def hd_js_split Let_def)

subsection \<open>The sample platform\<close>

lemma sample_strip_slash:
  "removePathPrefix sample_platform sample_env (CHR ''/'' # p) = Inr p"
  by (simp add: removePathPrefix_def sample_platform_def sample_env_def template_str_def
      sample_RegExp_def plain_char_def replace_first_def starts_with_def)

lemma sample_whitelist: "getAllowedSourceBuckets sample_env = Inr [''images'', ''thumbs'']"
  by (simp add: getAllowedSourceBuckets_def sample_env_def js_whitespace_def)

subsection \<open>The whitelist\<close>

lemma getAllowedSourceBuckets_not_Nil: "getAllowedSourceBuckets env = Inr W \<Longrightarrow> W \<noteq> []"
  by (auto simp: getAllowedSourceBuckets_def js_split_not_Nil split: option.splits)

lemma getAllowedSourceBuckets_unset:
  "SOURCE_BUCKETS env = None \<Longrightarrow>
     getAllowedSourceBuckets env = Inl (Thrown NoSourceBuckets) \<and> status NoSourceBuckets = 400"
  by (simp add: getAllowedSourceBuckets_def NoSourceBuckets_def)

lemma getAllowedSourceBuckets_set:
  "SOURCE_BUCKETS env = Some s \<Longrightarrow>
     getAllowedSourceBuckets env = Inr (js_split CHR '','' (filter (\<lambda>c. \<not> js_whitespace c) s))"
  by (simp add: getAllowedSourceBuckets_def)

lemma js_split_filter: "P c \<Longrightarrow> js_split c (filter P s) = map (filter P) (js_split c s)"
proof (induction s)
  case Nil
  then show ?case by simp
next
  case (Cons x xs)
  obtain y ys where spl: "js_split c xs = y # ys"
    using js_split_not_Nil [of c xs] by (cases "js_split c xs") auto
  then show ?case using Cons by auto
qed

lemma filter_dropWhile: "filter (\<lambda>x. \<not> P x) (dropWhile P xs) = filter (\<lambda>x. \<not> P x) xs"
  by (induction xs) auto

lemma filter_spec_trim:
  "filter (\<lambda>c. \<not> js_whitespace c) (spec_trim e) = filter (\<lambda>c. \<not> js_whitespace c) e"
  by (simp add: spec_trim_def filter_dropWhile flip: rev_filter)

text \<open>
  On a list whose entries have no whitespace inside, deleting all whitespace is
  stripping the whitespace around each entry.
\<close>

lemma getAllowedSourceBuckets_spec:
  assumes "SOURCE_BUCKETS env = Some s"
    and "\<forall>e \<in> set (spec_whitelist s). \<forall>c \<in> set e. \<not> js_whitespace c"
  shows "getAllowedSourceBuckets env = Inr (spec_whitelist s)"
proof -
  have "\<not> js_whitespace CHR '',''" by (simp add: js_whitespace_def)
  then have "js_split CHR '','' (filter (\<lambda>c. \<not> js_whitespace c) s) =
      map (filter (\<lambda>c. \<not> js_whitespace c)) (js_split CHR '','' s)"
    by (rule js_split_filter)
  moreover have "map (filter (\<lambda>c. \<not> js_whitespace c)) (js_split CHR '','' s) = spec_whitelist s"
    unfolding spec_whitelist_def
  proof (rule map_cong [OF refl])
    fix e assume "e \<in> set (js_split CHR '','' s)"
    then have "\<forall>c \<in> set (spec_trim e). \<not> js_whitespace c"
      using assms(2) by (auto simp: spec_whitelist_def)
    then have "filter (\<lambda>c. \<not> js_whitespace c) (spec_trim e) = spec_trim e"
      by (simp add: filter_id_conv)
    then show "filter (\<lambda>c. \<not> js_whitespace c) e = spec_trim e"
      by (simp add: filter_spec_trim)
  qed
  ultimately show ?thesis using assms(1) by (simp add: getAllowedSourceBuckets_def)
qed

text \<open>
  Claim C9. Reading the whitelist is to fail with the configuration error of status
  400 when the variable \<^verbatim>\<open>SOURCE_BUCKETS\<close> is missing or empty. For the empty string
  the method does not fail: it returns the list whose only entry is the empty bucket
  name.
\<close>

theorem getAllowedSourceBuckets_empty_string:
  "getAllowedSourceBuckets \<lparr>PATH_PREFIX = None, SOURCE_BUCKETS = Some [], AUTO_WEBP = None\<rparr>
     = Inr [[]]"
  by (simp add: getAllowedSourceBuckets_def)

subsection \<open>The storage call\<close>

text \<open>
  Claim C6. When the storage call fails, \<open>getOriginalImage\<close> rejects with an error
  object whose status is 404 if the code of the underlying error is \<^verbatim>\<open>NoSuchKey\<close> and
  500 for every other failure, and whose code and message are those of the
  underlying error.
\<close>

theorem getOriginalImage_failure:
  assumes "S3_getObject rt b k = Inl err"
  shows "\<exists>e. getOriginalImage rt this b k = Inl (Thrown e) \<and>
           status e = (if code err = Some ''NoSuchKey'' then 404 else 500) \<and>
           code e = code err \<and> message e = message err"
  using assms by (auto simp add: getOriginalImage_def)

theorem getOriginalImage_failure_witness:
  "(\<exists>e. getOriginalImage sample_platform new_ImageRequest ''images'' ''missing.png'' = Inl (Thrown e) \<and>
     status e = 404 \<and> code e = Some ''NoSuchKey'' \<and>
     message e = Some ''The specified key does not exist.'') \<and>
   (\<exists>e. getOriginalImage sample_platform new_ImageRequest ''private'' ''a.png'' = Inl (Thrown e) \<and>
     status e = 500 \<and> code e = Some ''AccessDenied'' \<and> message e = Some ''Access Denied'')"
proof -
  have a: "S3_getObject sample_platform ''images'' ''missing.png'' =
      Inl \<lparr>code = Some ''NoSuchKey'', message = Some ''The specified key does not exist.''\<rparr>"
    by (simp add: sample_platform_def sample_S3_getObject_def)
  have b: "S3_getObject sample_platform ''private'' ''a.png'' =
      Inl \<lparr>code = Some ''AccessDenied'', message = Some ''Access Denied''\<rparr>"
    by (simp add: sample_platform_def sample_S3_getObject_def)
  show ?thesis
    using getOriginalImage_failure [OF a, of new_ImageRequest]
      getOriginalImage_failure [OF b, of new_ImageRequest]
    by simp
qed

subsection \<open>The bucket\<close>

text \<open>
  Claim C8. For the request type \<^verbatim>\<open>Default\<close> and a path whose first segment, after
  the prefix has been removed, is empty, the bucket is the first entry of the
  configured whitelist, and no error is raised.
\<close>

theorem parseImageBucket_default_bucket:
  assumes "removePathPrefix rt env (path ev) = Inr p"
    and "hd (js_split CHR ''/'' p) = []"
    and "getAllowedSourceBuckets env = Inr W"
  shows "W \<noteq> [] \<and> parseImageBucket rt env ev ''Default'' = Inr (hd W)"
  using assms getAllowedSourceBuckets_not_Nil [of env W]
  by (simp add: parseImageBucket_def)

theorem parseImageBucket_default_bucket_witness:
  "parseImageBucket sample_platform sample_env
     \<lparr>path = ''/'', queryStringParameters = None, headers = None\<rparr> ''Default'' = Inr ''images''"
  using parseImageBucket_default_bucket [of sample_platform sample_env
      "\<lparr>path = ''/'', queryStringParameters = None, headers = None\<rparr>" "[]"
      "[''images'', ''thumbs'']"]
    sample_strip_slash [of "[]"] sample_whitelist
  by simp

subsection \<open>The edits\<close>

text \<open>
  Claim C5. For the request type \<^verbatim>\<open>Default\<close>, reading the edits fails if and only if
  the query parameter \<^verbatim>\<open>edits\<close> is present and the text decoded from its base64
  payload does not parse as JSON; the error then is the decoding error of status 400.
  Without query parameters, or without the parameter \<^verbatim>\<open>edits\<close> among them, the
  result is the empty object.
\<close>

theorem parseImageEdits_error_iff:
  "((\<exists>e. parseImageEdits rt ev ''Default'' = Inl e) \<longleftrightarrow>
      (\<exists>params raw. queryStringParameters ev = Some params \<and> params ''edits'' = Some raw \<and>
         JSON_parse rt (Buffer_toString rt (Buffer_from_base64 rt raw)) = None)) \<and>
   (\<forall>e. parseImageEdits rt ev ''Default'' = Inl e \<longrightarrow>
      e = Thrown CannotDecodeRequest \<and> status CannotDecodeRequest = 400) \<and>
   (queryStringParameters ev = None \<longrightarrow> parseImageEdits rt ev ''Default'' = Inr (JObject [])) \<and>
   (\<forall>params. queryStringParameters ev = Some params \<and> params ''edits'' = None \<longrightarrow>
      parseImageEdits rt ev ''Default'' = Inr (JObject []))"
  by (auto simp: parseImageEdits_def decodeRequest_def CannotDecodeRequest_def Let_def
      split: option.splits json.splits)

lemmas sample_codec_defs =
  sample_platform_def sample_Buffer_from_base64_def sample_Buffer_toString_def
  sample_JSON_parse_def ascii_bytes_def text_resize_def text_format_def
  text_override_def text_unprintable_def text_truncated_def

lemma sample_truncated:
  "JSON_parse sample_platform (Buffer_toString sample_platform
      (Buffer_from_base64 sample_platform ''eyJyZXNpemUiOg=='')) = None"
  by (simp add: sample_codec_defs)

theorem parseImageEdits_error_iff_witness:
  "parseImageEdits sample_platform
      \<lparr>path = ''/images/a.png'', queryStringParameters = Some [''edits'' \<mapsto> ''eyJyZXNpemUiOg==''],
       headers = None\<rparr> ''Default'' = Inl (Thrown CannotDecodeRequest) \<and>
   parseImageEdits sample_platform
      \<lparr>path = ''/images/a.png'', queryStringParameters = None, headers = None\<rparr> ''Default''
     = Inr (JObject []) \<and>
   parseImageEdits sample_platform
      \<lparr>path = ''/images/a.png'', queryStringParameters = Some [''w'' \<mapsto> ''100''], headers = None\<rparr>
      ''Default'' = Inr (JObject [])"
proof -
  let ?bad = "\<lparr>path = ''/images/a.png'',
      queryStringParameters = Some [''edits'' \<mapsto> ''eyJyZXNpemUiOg==''], headers = None\<rparr>"
  have "\<exists>e. parseImageEdits sample_platform ?bad ''Default'' = Inl e"
    using parseImageEdits_error_iff [of sample_platform ?bad] sample_truncated by simp
  then have 1: "parseImageEdits sample_platform ?bad ''Default'' = Inl (Thrown CannotDecodeRequest)"
    using parseImageEdits_error_iff [of sample_platform ?bad] by blast
  have 2: "parseImageEdits sample_platform
      \<lparr>path = ''/images/a.png'', queryStringParameters = None, headers = None\<rparr> ''Default''
     = Inr (JObject [])"
    using parseImageEdits_error_iff [of sample_platform
      "\<lparr>path = ''/images/a.png'', queryStringParameters = None, headers = None\<rparr>"] by simp
  have 3: "parseImageEdits sample_platform
      \<lparr>path = ''/images/a.png'', queryStringParameters = Some [''w'' \<mapsto> ''100''], headers = None\<rparr>
      ''Default'' = Inr (JObject [])"
    using parseImageEdits_error_iff [of sample_platform
      "\<lparr>path = ''/images/a.png'', queryStringParameters = Some [''w'' \<mapsto> ''100''], headers = None\<rparr>"]
    by simp
  show ?thesis using 1 2 3 by simp
qed

text \<open>
  A payload that the built-in decoders turn into an object is returned as that
  object: the method takes no property out of it and wraps it in nothing.
\<close>

lemma parseImageEdits_object:
  assumes "queryStringParameters ev = Some params"
    and "params ''edits'' = Some raw"
    and "JSON_parse rt (Buffer_toString rt (Buffer_from_base64 rt raw)) = Some (JObject m)"
  shows "parseImageEdits rt ev ''Default'' = Inr (JObject m)"
  using assms by (simp add: parseImageEdits_def decodeRequest_def)

subsection \<open>The bucket and the whitelist\<close>

lemma hd_js_split_segment: "c \<notin> set b \<Longrightarrow> hd (js_split c (b @ c # k)) = b"
  by (auto simp: hd_js_split takeWhile_tail)

lemma sample_strip_unset:
  "removePathPrefix sample_platform \<lparr>PATH_PREFIX = None, SOURCE_BUCKETS = sb, AUTO_WEBP = aw\<rparr>
     (CHR ''/'' # p) = Inr (CHR ''/'' # p)"
  by (simp add: removePathPrefix_def sample_platform_def template_str_def
      sample_RegExp_def plain_char_def replace_first_def starts_with_def)

text \<open>
  Claim C2, as amended. Let the whitelist be configured, with entries \<open>W\<close>, and let
  \<open>b\<close> be the first segment of the path left by the removal of the prefix, not
  empty. If \<open>b\<close> is an entry of \<open>W\<close> the bucket is \<open>b\<close>. When the pattern made of
  the first entry between \<^verbatim>\<open>^\<close> and \<^verbatim>\<open>$\<close> is a regular expression, the bucket is
  \<open>b\<close> if and only if \<open>b\<close> is an entry or matches that expression, and otherwise
  the method fails with the error of status 403; when the pattern is not a regular
  expression and \<open>b\<close> is not an entry, the SyntaxError of the constructor ends the
  method. In particular a path left as
  \<^verbatim>\<open>b/key\<close> by the removal of the prefix, with \<open>b\<close> an entry of \<open>W\<close>, gives \<open>b\<close>.
\<close>

theorem parseImageBucket_whitelist:
  assumes "getAllowedSourceBuckets env = Inr W"
  shows "(\<forall>p b. removePathPrefix rt env (path ev) = Inr p \<and>
                 hd (js_split CHR ''/'' p) = b \<and> b \<noteq> [] \<longrightarrow>
            (b \<in> set W \<longrightarrow> parseImageBucket rt env ev ''Default'' = Inr b) \<and>
            (\<forall>re. RegExp rt (''^'' @ hd W @ ''$'') = Some re \<longrightarrow>
               (parseImageBucket rt env ev ''Default'' = Inr b \<longleftrightarrow> b \<in> set W \<or> re b \<noteq> None) \<and>
               (b \<notin> set W \<and> re b = None \<longrightarrow>
                  parseImageBucket rt env ev ''Default'' = Inl (Thrown CannotAccessBucket))) \<and>
            (b \<notin> set W \<and> RegExp rt (''^'' @ hd W @ ''$'') = None \<longrightarrow>
               parseImageBucket rt env ev ''Default'' = Inl SyntaxError)) \<and>
         (\<forall>b k. removePathPrefix rt env (path ev) = Inr (b @ CHR ''/'' # k) \<and>
                 b \<noteq> [] \<and> CHR ''/'' \<notin> set b \<and> b \<in> set W \<longrightarrow>
            parseImageBucket rt env ev ''Default'' = Inr b) \<and>
         status CannotAccessBucket = 403"
  using assms
  by (auto simp: parseImageBucket_def Let_def hd_js_split_segment CannotAccessBucket_def)

theorem parseImageBucket_whitelist_witness:
  "parseImageBucket sample_platform sample_env
     \<lparr>path = ''/thumbs/key'', queryStringParameters = None, headers = None\<rparr> ''Default''
     = Inr ''thumbs'' \<and>
   parseImageBucket sample_platform sample_env
     \<lparr>path = ''/private/key'', queryStringParameters = None, headers = None\<rparr> ''Default''
     = Inl (Thrown CannotAccessBucket)"
proof -
  let ?ok = "\<lparr>path = ''/thumbs/key'', queryStringParameters = None, headers = None\<rparr>"
  let ?no = "\<lparr>path = ''/private/key'', queryStringParameters = None, headers = None\<rparr>"
  have re: "RegExp sample_platform (''^'' @ hd [''images'', ''thumbs''] @ ''$'') =
      Some (\<lambda>s. if s = ''images'' then Some (0, length s) else None)"
    by (simp add: sample_platform_def sample_RegExp_def plain_char_def)
  have 1: "parseImageBucket sample_platform sample_env ?ok ''Default'' = Inr ''thumbs''"
    using parseImageBucket_whitelist [OF sample_whitelist, of sample_platform ?ok]
      sample_strip_slash [of "''thumbs/key''"]
    by simp
  have 2: "parseImageBucket sample_platform sample_env ?no ''Default'' =
      Inl (Thrown CannotAccessBucket)"
    using parseImageBucket_whitelist [OF sample_whitelist, of sample_platform ?no]
      sample_strip_slash [of "''private/key''"] re
    by simp
  show ?thesis using 1 2 by simp
qed

text \<open>
  The claim as stated fails when no prefix is configured: the path \<^verbatim>\<open>/thumbs/key\<close>
  then keeps its leading \<^verbatim>\<open>/\<close>, its first segment is empty, and the bucket is the
  first entry of the whitelist although \<^verbatim>\<open>thumbs\<close> is an entry.
\<close>

theorem parseImageBucket_leading_slash:
  "getAllowedSourceBuckets
     \<lparr>PATH_PREFIX = None, SOURCE_BUCKETS = Some ''images, thumbs'', AUTO_WEBP = None\<rparr>
     = Inr [''images'', ''thumbs''] \<and>
   parseImageBucket sample_platform
     \<lparr>PATH_PREFIX = None, SOURCE_BUCKETS = Some ''images, thumbs'', AUTO_WEBP = None\<rparr>
     \<lparr>path = ''/thumbs/key'', queryStringParameters = None, headers = None\<rparr> ''Default''
     = Inr ''images''"
  by (simp add: parseImageBucket_def sample_strip_unset getAllowedSourceBuckets_def
      js_whitespace_def)

subsection \<open>The key\<close>

text \<open>
  Claim C4, as amended. For the request type \<^verbatim>\<open>Default\<close>, let \<open>p\<close> be the path left
  by the removal of the prefix and \<open>clean\<close> be \<open>p\<close> cut at its first \<^verbatim>\<open>#\<close> and then
  at its first \<^verbatim>\<open>?\<close>. The key is made of the segments of \<open>clean\<close> after the first,
  joined with \<^verbatim>\<open>/\<close>, which is the text after the first \<^verbatim>\<open>/\<close> of \<open>clean\<close>; the method
  fails with the error of status 404 if and only if this key is empty. The two
  examples of the claim hold when the prefix removes the leading \<^verbatim>\<open>/\<close>.
\<close>

theorem parseImageKey_key:
  assumes "removePathPrefix rt env (path ev) = Inr p"
    and "clean = takeWhile (\<lambda>x. x \<noteq> CHR ''?'') (takeWhile (\<lambda>x. x \<noteq> CHR ''#'') p)"
    and "k = js_join ''/'' (drop 1 (js_split CHR ''/'' clean))"
  shows "parseImageKey rt env ev ''Default'' =
           (if k = [] then Inl (Thrown CannotFindImage) else Inr k) \<and>
         status CannotFindImage = 404 \<and>
         k = tl (dropWhile (\<lambda>x. x \<noteq> CHR ''/'') clean)"
  using assms js_join_drop_js_split [of "CHR ''/''" clean]
  by (simp add: parseImageKey_def key_of_path_def hd_js_split CannotFindImage_def)

theorem parseImageKey_key_witness:
  "parseImageKey sample_platform sample_env
     \<lparr>path = ''/bucket/a/b/c.png?x=1#frag'', queryStringParameters = None, headers = None\<rparr>
     ''Default'' = Inr ''a/b/c.png'' \<and>
   parseImageKey sample_platform sample_env
     \<lparr>path = ''/bucket'', queryStringParameters = None, headers = None\<rparr> ''Default''
     = Inl (Thrown CannotFindImage)"
  using parseImageKey_key [of sample_platform sample_env
      "\<lparr>path = ''/bucket/a/b/c.png?x=1#frag'', queryStringParameters = None, headers = None\<rparr>"
      "''bucket/a/b/c.png?x=1#frag''" "''bucket/a/b/c.png''" "''a/b/c.png''"]
    parseImageKey_key [of sample_platform sample_env
      "\<lparr>path = ''/bucket'', queryStringParameters = None, headers = None\<rparr>"
      "''bucket''" "''bucket''" "[]"]
    sample_strip_slash [of "''bucket/a/b/c.png?x=1#frag''"] sample_strip_slash [of "''bucket''"]
  by simp

text \<open>
  The claim as stated fails when no prefix is configured: the leading \<^verbatim>\<open>/\<close> stays,
  the segment dropped is the empty one, and the name of the bucket is part of the
  key.
\<close>

theorem parseImageKey_leading_slash:
  "parseImageKey sample_platform
     \<lparr>PATH_PREFIX = None, SOURCE_BUCKETS = Some ''images, thumbs'', AUTO_WEBP = None\<rparr>
     \<lparr>path = ''/bucket'', queryStringParameters = None, headers = None\<rparr> ''Default''
     = Inr ''bucket'' \<and>
   parseImageKey sample_platform
     \<lparr>PATH_PREFIX = None, SOURCE_BUCKETS = Some ''images, thumbs'', AUTO_WEBP = None\<rparr>
     \<lparr>path = ''/bucket/a/b/c.png?x=1#frag'', queryStringParameters = None, headers = None\<rparr>
     ''Default'' = Inr ''bucket/a/b/c.png''"
  by (simp add: parseImageKey_def sample_strip_unset key_of_path_def)

subsection \<open>The pipeline\<close>

lemmas sample_run_defs =
  setup_request_def parseRequestType_def parseImageBucket_def parseImageKey_def
  parseImageEdits_def decodeRequest_def getOriginalImage_def getOutputFormat_def
  accepts_webp_def choose_format_def fixQuality_def removePathPrefix_def
  getAllowedSourceBuckets_def key_of_path_def replace_first_def template_str_def
  starts_with_def truthy_str_def js_whitespace_def new_ImageRequest_def
  sample_RegExp_def plain_char_def sample_S3_getObject_def sample_image_def
  sample_Date_toUTCString_def sample_Number_toString_def

lemma sample_setup:
  "setup_request sample_platform sample_env sample_event = Inr sample_descriptor"
  by (simp add: sample_run_defs sample_codec_defs sample_env_def sample_event_def
      sample_descriptor_def)

lemma sequence_exn_Inl: "sequence_exn rs = Inl e \<Longrightarrow> Inl e \<in> set rs"
  by (induction rs) (auto split: sum.splits)

text \<open>The only error of the conversion to a string is the TypeError.\<close>

lemma ToString_error: "ToString num v = Inl e \<Longrightarrow> e = TypeError"
proof (induction num v arbitrary: e rule: ToString.induct)
  case (5 num vs)
  from "5.prems" have "sequence_exn (map (\<lambda>v. if v = JNull then Inr [] else ToString num v) vs) = Inl e"
    by (simp split: sum.splits)
  then have "Inl e \<in> set (map (\<lambda>v. if v = JNull then Inr [] else ToString num v) vs)"
    by (rule sequence_exn_Inl)
  then obtain v where "v \<in> set vs" and "v \<noteq> JNull" and "ToString num v = Inl e"
    by (auto split: if_splits)
  then show ?case using "5.IH" by blast
qed (auto split: if_splits)

text \<open>
  With the request type \<^verbatim>\<open>Default\<close> the block only sets the content type, or fails
  in the conversion of the format.
\<close>

lemma fixQuality_Default:
  "requestType this = Some ''Default'' \<Longrightarrow>
     fixQuality rt this =
       (case outputFormat this of
          None \<Rightarrow> Inr this
        | Some fmt \<Rightarrow>
            if ToBoolean (Some fmt) then
              (case ToString (Number_toString rt) fmt of
                 Inl e \<Rightarrow> Inl e
               | Inr text \<Rightarrow> Inr (this\<lparr>ContentType := Some (''image/'' @ text)\<rparr>))
            else Inr this)"
  by (simp add: fixQuality_def Let_def split: option.splits sum.splits)

lemma getOriginalImage_fields:
  "getOriginalImage rt this b k = Inr (img, this') \<Longrightarrow>
     requestType this' = requestType this \<and> edits this' = edits this \<and>
     outputFormat this' = outputFormat this \<and> bucket this' = bucket this \<and> key this' = key this"
  by (auto simp: getOriginalImage_def Let_def split: sum.splits option.splits if_splits)

lemma choose_format_fields:
  "requestType (choose_format this ed fmt) = requestType this \<and>
   edits (choose_format this ed fmt) = edits this"
  by (simp add: choose_format_def)

text \<open>A run of the pipeline that returns a descriptor has passed every stage.\<close>

lemma setup_request_stages:
  assumes "setup_request rt env ev = Inr d"
  obtains b k ed img this1 fmt where
    "parseImageBucket rt env ev ''Default'' = Inr b"
    "parseImageKey rt env ev ''Default'' = Inr k"
    "parseImageEdits rt ev ''Default'' = Inr ed"
    "getOriginalImage rt
        (new_ImageRequest\<lparr>requestType := Some ''Default'', bucket := Some b, key := Some k,
           edits := Some ed\<rparr>) b k = Inr (img, this1)"
    "getOutputFormat env (this1\<lparr>originalImage := Some img\<rparr>) ev ed = Inr fmt"
    "fixQuality rt (choose_format (this1\<lparr>originalImage := Some img\<rparr>) ed fmt) = Inr d"
  using assms
  by (auto simp: setup_request_def parseRequestType_def Let_def split: sum.splits prod.splits)

text \<open>
  Claim C10. The classifier returns \<^verbatim>\<open>Default\<close> for every event. Hence every
  descriptor that the pipeline returns has the request type \<^verbatim>\<open>Default\<close>, and its
  edits are the decoded edits, unchanged: the pipeline renames and deletes no key of
  them. With that request type the block that renames a quality key either fails
  with the TypeError of its template literal or returns with the edits as they were.
\<close>

theorem setup_request_Default:
  "parseRequestType ev = ''Default'' \<and>
   (\<forall>d. setup_request rt env ev = Inr d \<longrightarrow>
      requestType d = Some ''Default'' \<and>
      (\<exists>ed. parseImageEdits rt ev ''Default'' = Inr ed \<and> edits d = Some ed)) \<and>
   (\<forall>this. requestType this = Some ''Default'' \<longrightarrow>
      fixQuality rt this = Inl TypeError \<or>
      (\<exists>this'. fixQuality rt this = Inr this' \<and> edits this' = edits this))"
proof (intro conjI allI impI)
  show "parseRequestType ev = ''Default''" by (simp add: parseRequestType_def)
next
  fix d assume ok: "setup_request rt env ev = Inr d"
  from ok obtain b k ed img this1 fmt where
    ed: "parseImageEdits rt ev ''Default'' = Inr ed"
    and img: "getOriginalImage rt
        (new_ImageRequest\<lparr>requestType := Some ''Default'', bucket := Some b, key := Some k,
           edits := Some ed\<rparr>) b k = Inr (img, this1)"
    and d: "fixQuality rt (choose_format (this1\<lparr>originalImage := Some img\<rparr>) ed fmt) = Inr d"
    by (rule setup_request_stages)
  have rt1: "requestType this1 = Some ''Default''" and ed1: "edits this1 = Some ed"
    using getOriginalImage_fields [OF img] by simp_all
  have "requestType (choose_format (this1\<lparr>originalImage := Some img\<rparr>) ed fmt) = Some ''Default''"
    using rt1 by (simp add: choose_format_fields)
  from fixQuality_Default [OF this, of rt] d
  have "requestType d = Some ''Default'' \<and> edits d = Some ed"
    using rt1 ed1 by (auto simp: choose_format_def split: option.splits if_splits sum.splits)
  then show "requestType d = Some ''Default''"
    and "\<exists>ed. parseImageEdits rt ev ''Default'' = Inr ed \<and> edits d = Some ed"
    using ed by auto
next
  fix this :: image_request assume dflt: "requestType this = Some ''Default''"
  show "fixQuality rt this = Inl TypeError \<or>
      (\<exists>this'. fixQuality rt this = Inr this' \<and> edits this' = edits this)"
  proof (cases "fixQuality rt this")
    case (Inl e)
    then have "\<exists>fmt. ToString (Number_toString rt) fmt = Inl e"
      using fixQuality_Default [OF dflt, of rt]
      by (auto split: option.splits if_splits sum.splits)
    then have "e = TypeError" using ToString_error by blast
    then show ?thesis using Inl by simp
  next
    case (Inr this')
    then have "edits this' = edits this"
      using fixQuality_Default [OF dflt, of rt]
      by (auto split: option.splits if_splits sum.splits)
    then show ?thesis using Inr by simp
  qed
qed

theorem setup_request_Default_witness:
  "parseRequestType sample_event = ''Default'' \<and>
   setup_request sample_platform sample_env sample_event = Inr sample_descriptor \<and>
   requestType sample_descriptor = Some ''Default'' \<and>
   parseImageEdits sample_platform sample_event ''Default''
     = Inr (JObject [(''resize'', JObject [(''width'', JNum 100)])]) \<and>
   edits sample_descriptor = Some (JObject [(''resize'', JObject [(''width'', JNum 100)])])"
proof -
  have e: "edits sample_descriptor = Some (JObject [(''resize'', JObject [(''width'', JNum 100)])])"
    by (simp add: sample_descriptor_def)
  show ?thesis
    using setup_request_Default [of sample_event sample_platform sample_env] sample_setup e
    by auto
qed

subsection \<open>The output format\<close>

lemma includes_str_iff: "includes_str s t \<longleftrightarrow> (\<exists>u v. s = u @ t @ v)"
proof (induction s)
  case Nil
  then show ?case by auto
next
  case (Cons c cs)
  have "starts_with t (c # cs) \<longleftrightarrow> (\<exists>v. c # cs = t @ v)"
    unfolding starts_with_def by (metis append_eq_conv_conj)
  moreover have "(\<exists>u v. c # cs = u @ t @ v) \<longleftrightarrow> (\<exists>v. c # cs = t @ v) \<or> (\<exists>u v. cs = u @ t @ v)"
  proof
    assume "\<exists>u v. c # cs = u @ t @ v"
    then obtain u v where uv: "c # cs = u @ t @ v" by blast
    show "(\<exists>v. c # cs = t @ v) \<or> (\<exists>u v. cs = u @ t @ v)"
    proof (cases u)
      case Nil
      then show ?thesis using uv by auto
    next
      case (Cons a u')
      then show ?thesis using uv by auto
    qed
  next
    assume "(\<exists>v. c # cs = t @ v) \<or> (\<exists>u v. cs = u @ t @ v)"
    then show "\<exists>u v. c # cs = u @ t @ v"
    proof
      assume "\<exists>v. c # cs = t @ v"
      then show ?thesis by (metis append_Nil)
    next
      assume "\<exists>u v. cs = u @ t @ v"
      then show ?thesis by (metis append_Cons)
    qed
  qed
  ultimately show ?case using Cons by simp
qed

lemma accepts_webp_True_iff:
  "accepts_webp env ev = Inr True \<longleftrightarrow>
     truthy_str (AUTO_WEBP env) \<and>
     (\<exists>h a. headers ev = Some h \<and> h ''Accept'' = Some a \<and> includes_str a ''image/webp'')"
  by (auto simp: accepts_webp_def truthy_str_def split: option.splits)

lemma get_prop_falsy: "\<not> ToBoolean (Some ed) \<Longrightarrow> get_prop ed k = None"
  by (cases ed) auto

text \<open>
  Claim C3. In the descriptor that the pipeline returns, the output format is: the
  value of \<^verbatim>\<open>toFormat\<close> in the edits when there is one; otherwise \<^verbatim>\<open>webp\<close> when
  \<^verbatim>\<open>AUTO_WEBP\<close> is set and the \<^verbatim>\<open>Accept\<close> header contains \<^verbatim>\<open>image/webp\<close>; otherwise
  the value of \<^verbatim>\<open>outputFormat\<close> in the edits when there is one; otherwise none. A
  value is there when the program's test of it succeeds, that is, when it is none of
  \<^verbatim>\<open>null\<close>, \<^verbatim>\<open>false\<close>, 0 and the empty string. When there is an output format, the
  content type is \<^verbatim>\<open>image/\<close> followed by the format as the template literal has
  rendered it.
\<close>

theorem setup_request_outputFormat:
  assumes "setup_request rt env ev = Inr d"
  shows "\<exists>ed. parseImageEdits rt ev ''Default'' = Inr ed \<and>
     outputFormat d =
       (if ToBoolean (get_prop ed ''toFormat'') then get_prop ed ''toFormat''
        else if truthy_str (AUTO_WEBP env) \<and>
                (\<exists>h a. headers ev = Some h \<and> h ''Accept'' = Some a \<and>
                   includes_str a ''image/webp'')
        then Some (JString ''webp'')
        else if ToBoolean (get_prop ed ''outputFormat'') then get_prop ed ''outputFormat''
        else None) \<and>
     (\<forall>fmt. outputFormat d = Some fmt \<longrightarrow>
        (\<exists>text. ToString (Number_toString rt) fmt = Inr text \<and>
           ContentType d = Some (''image/'' @ text)))"
proof -
  from assms obtain b k ed img this1 fmt where
    ed: "parseImageEdits rt ev ''Default'' = Inr ed"
    and img: "getOriginalImage rt
        (new_ImageRequest\<lparr>requestType := Some ''Default'', bucket := Some b, key := Some k,
           edits := Some ed\<rparr>) b k = Inr (img, this1)"
    and fmt: "getOutputFormat env (this1\<lparr>originalImage := Some img\<rparr>) ev ed = Inr fmt"
    and d: "fixQuality rt (choose_format (this1\<lparr>originalImage := Some img\<rparr>) ed fmt) = Inr d"
    by (rule setup_request_stages)
  let ?t0 = "this1\<lparr>originalImage := Some img\<rparr>"
  have rt1: "requestType ?t0 = Some ''Default''" and of1: "outputFormat ?t0 = None"
    using getOriginalImage_fields [OF img] by (simp_all add: new_ImageRequest_def)
  define webp where "webp \<longleftrightarrow> truthy_str (AUTO_WEBP env) \<and>
      (\<exists>h a. headers ev = Some h \<and> h ''Accept'' = Some a \<and> includes_str a ''image/webp'')"
  have acc: "accepts_webp env ev = Inr True \<longleftrightarrow> webp"
    unfolding webp_def by (rule accepts_webp_True_iff)
  have fmt_webp: "webp \<Longrightarrow> fmt = Some (JString ''webp'')"
    and fmt_else: "\<not> webp \<Longrightarrow> fmt = get_prop ed ''outputFormat''"
    using fmt rt1 acc
    by (auto simp: getOutputFormat_def split: sum.splits bool.splits if_splits)
  let ?chosen = "choose_format ?t0 ed fmt"
  have chosen: "outputFormat ?chosen =
       (if ToBoolean (get_prop ed ''toFormat'') then get_prop ed ''toFormat''
        else if webp then Some (JString ''webp'')
        else if ToBoolean (get_prop ed ''outputFormat'') then get_prop ed ''outputFormat''
        else None)"
  proof (cases webp)
    case True
    then show ?thesis
      using fmt_webp of1 get_prop_falsy [of ed "''toFormat''"]
      by (simp add: choose_format_def)
  next
    case False
    then show ?thesis
      using fmt_else of1 get_prop_falsy [of ed "''toFormat''"]
      by (simp add: choose_format_def)
  qed
  have truthy: "outputFormat ?chosen = None \<or> ToBoolean (outputFormat ?chosen)"
    unfolding chosen by auto
  have dflt: "requestType ?chosen = Some ''Default''"
    using rt1 by (simp add: choose_format_fields)
  have run: "(case outputFormat ?chosen of
          None \<Rightarrow> Inr ?chosen
        | Some f \<Rightarrow>
            if ToBoolean (Some f) then
              (case ToString (Number_toString rt) f of
                 Inl e \<Rightarrow> Inl e
               | Inr text \<Rightarrow> Inr (?chosen\<lparr>ContentType := Some (''image/'' @ text)\<rparr>))
            else Inr ?chosen) = Inr d"
    using fixQuality_Default [OF dflt, of rt] d by simp
  have same: "outputFormat d = outputFormat ?chosen"
    using run truthy by (auto split: option.splits sum.splits if_splits)
  have ctype: "\<forall>f. outputFormat d = Some f \<longrightarrow>
        (\<exists>text. ToString (Number_toString rt) f = Inr text \<and>
           ContentType d = Some (''image/'' @ text))"
    using run truthy by (auto split: option.splits sum.splits if_splits)
  show ?thesis using ed chosen same ctype unfolding webp_def by simp
qed

text \<open>
  A format that the template literal cannot render ends the pipeline with the
  TypeError instead of a descriptor.
\<close>

lemma sample_setup_unprintable:
  "setup_request sample_platform sample_env unprintable_event = Inl TypeError"
  by (simp add: sample_run_defs sample_codec_defs sample_env_def unprintable_event_def)

lemma sample_edits_format:
  "parseImageEdits sample_platform format_event ''Default''
     = Inr (JObject [(''outputFormat'', JString ''png'')])"
  by (simp add: parseImageEdits_def decodeRequest_def format_event_def sample_codec_defs)

lemma sample_edits_override:
  "parseImageEdits sample_platform override_event ''Default''
     = Inr (JObject [(''toFormat'', JString ''png''), (''outputFormat'', JString ''jpeg'')])"
  by (simp add: parseImageEdits_def decodeRequest_def override_event_def sample_codec_defs)

lemma sample_setup_succeeds:
  "\<exists>d. setup_request sample_platform webp_env override_event = Inr d"
  "\<exists>d. setup_request sample_platform webp_env format_event = Inr d"
  "\<exists>d. setup_request sample_platform sample_env format_event = Inr d"
  by (simp_all add: sample_run_defs sample_codec_defs sample_env_def webp_env_def
      format_event_def override_event_def)

theorem setup_request_outputFormat_witness:
  "(\<exists>d. setup_request sample_platform webp_env override_event = Inr d \<and>
        outputFormat d = Some (JString ''png'') \<and> ContentType d = Some ''image/png'') \<and>
   (\<exists>d. setup_request sample_platform webp_env format_event = Inr d \<and>
        outputFormat d = Some (JString ''webp'') \<and> ContentType d = Some ''image/webp'') \<and>
   (\<exists>d. setup_request sample_platform sample_env format_event = Inr d \<and>
        outputFormat d = Some (JString ''png'') \<and> ContentType d = Some ''image/png'')"
proof (intro conjI)
  obtain d where d: "setup_request sample_platform webp_env override_event = Inr d"
    using sample_setup_succeeds(1) by blast
  from setup_request_outputFormat [OF d] sample_edits_override
  have "outputFormat d = Some (JString ''png'') \<and> ContentType d = Some ''image/png''"
    by auto
  with d show "\<exists>d. setup_request sample_platform webp_env override_event = Inr d \<and>
        outputFormat d = Some (JString ''png'') \<and> ContentType d = Some ''image/png''"
    by blast
next
  obtain d where d: "setup_request sample_platform webp_env format_event = Inr d"
    using sample_setup_succeeds(2) by blast
  from setup_request_outputFormat [OF d] sample_edits_format
  have "outputFormat d = Some (JString ''webp'') \<and> ContentType d = Some ''image/webp''"
    by (auto simp: webp_env_def format_event_def truthy_str_def starts_with_def)
  with d show "\<exists>d. setup_request sample_platform webp_env format_event = Inr d \<and>
        outputFormat d = Some (JString ''webp'') \<and> ContentType d = Some ''image/webp''"
    by blast
next
  obtain d where d: "setup_request sample_platform sample_env format_event = Inr d"
    using sample_setup_succeeds(3) by blast
  from setup_request_outputFormat [OF d] sample_edits_format
  have "outputFormat d = Some (JString ''png'') \<and> ContentType d = Some ''image/png''"
    by (auto simp: sample_env_def truthy_str_def)
  with d show "\<exists>d. setup_request sample_platform sample_env format_event = Inr d \<and>
        outputFormat d = Some (JString ''png'') \<and> ContentType d = Some ''image/png''"
    by blast
qed

subsection \<open>The quality key\<close>

lemma map_of_set_prop: "map_of (set_prop f v ps) k = (if k = f then Some v else map_of ps k)"
  by (induction ps) auto

lemma map_of_delete_prop: "map_of (delete_prop q ps) k = (if k = q then None else map_of ps k)"
  by (induction ps) (auto simp: delete_prop_def)

lemma keys_delete_prop: "fst ` set (delete_prop q ps) = fst ` set ps - {q}"
  by (auto simp: delete_prop_def)

lemma map_fst_set_prop:
  "map fst (set_prop f v ps) = (if f \<in> fst ` set ps then map fst ps else map fst ps @ [f])"
  by (induction ps) auto

lemma codec_keys_set_prop:
  "f \<in> set acceptedValues \<Longrightarrow>
     codec_keys (set_prop f v ps) =
       (if f \<in> fst ` set ps then codec_keys ps else codec_keys ps @ [f])"
  by (simp add: codec_keys_def map_fst_set_prop)

lemma codec_keys_delete_prop:
  "codec_keys (delete_prop q ps) = filter (\<lambda>k. k \<noteq> q) (codec_keys ps)"
  by (induction ps) (auto simp: codec_keys_def delete_prop_def)

lemma length_filter_neq:
  "q \<in> set xs \<Longrightarrow> Suc (length (filter (\<lambda>k. k \<noteq> q) xs)) \<le> length xs"
  by (induction xs) (auto simp: le_SucI)

text \<open>Writing the new key and deleting the old one does not add a codec key.\<close>

lemma codec_keys_rename:
  assumes "f \<in> set acceptedValues" and "q \<in> set (codec_keys ps)" and "q \<noteq> f"
  shows "length (codec_keys (delete_prop q (set_prop f v ps))) \<le> length (codec_keys ps)"
  using assms length_filter_neq [of q "codec_keys ps"]
  by (simp add: codec_keys_delete_prop codec_keys_set_prop)

lemma codec_keys_in_object: "q \<in> set (codec_keys ps) \<Longrightarrow> q \<in> fst ` set ps"
  by (auto simp: codec_keys_def)

lemma map_of_codec_key: "q \<in> set (codec_keys ps) \<Longrightarrow> \<exists>v. map_of ps q = Some v"
  using codec_keys_in_object [of q ps] by (cases "map_of ps q") (auto simp: map_of_eq_None_iff)

lemma acceptedValues_nonempty: "f \<in> set acceptedValues \<Longrightarrow> f \<noteq> []"
  by (auto simp: acceptedValues_def)

text \<open>
  Claim C1, as amended. Let the request type be \<^verbatim>\<open>Custom\<close> or \<^verbatim>\<open>Thumbor\<close>, the
  output format be a codec name \<open>f\<close> and the edits be an object. The block that
  fixes the quality key sets the content type and returns edits with no more codec
  keys than before; so edits with at most one codec key keep at most one. When the
  first codec key \<open>q\<close> of the edits differs from \<open>f\<close>, the new edits have no key
  \<open>q\<close>, they hold under \<open>f\<close> the value that \<open>q\<close> had, and every other key keeps
  its value: the old key is never left beside the new one. When the edits have
  no codec key, or their first codec key is \<open>f\<close>, they are unchanged. Only the
  first codec key is renamed; the codec keys after it stay.
\<close>

theorem fixQuality_rename:
  assumes "requestType this \<in> {Some ''Custom'', Some ''Thumbor''}"
    and "outputFormat this = Some (JString f)"
    and "f \<in> set acceptedValues"
    and "edits this = Some (JObject ps)"
  shows "\<exists>ps'. fixQuality rt this =
            Inr (this\<lparr>ContentType := Some (''image/'' @ f), edits := Some (JObject ps')\<rparr>) \<and>
          length (codec_keys ps') \<le> length (codec_keys ps) \<and>
          (length (codec_keys ps) \<le> 1 \<longrightarrow> length (codec_keys ps') \<le> 1) \<and>
          (\<forall>q qs. codec_keys ps = q # qs \<and> q \<noteq> f \<longrightarrow>
             q \<notin> fst ` set ps' \<and> map_of ps q \<noteq> None \<and> map_of ps' f = map_of ps q \<and>
             (\<forall>k. k \<noteq> q \<and> k \<noteq> f \<longrightarrow> map_of ps' k = map_of ps k)) \<and>
          ((\<forall>q qs. codec_keys ps = q # qs \<longrightarrow> q = f) \<longrightarrow> ps' = ps)"
proof (cases "codec_keys ps")
  case Nil
  then have "fixQuality rt this =
      Inr (this\<lparr>ContentType := Some (''image/'' @ f), edits := Some (JObject ps)\<rparr>)"
    using assms acceptedValues_nonempty [of f]
    by (auto simp: fixQuality_def quality_keys_def Let_def)
  then show ?thesis using Nil by simp
next
  case (Cons q qs)
  have qf: "q \<noteq> []"
    using Cons acceptedValues_nonempty [of q] by (auto simp: codec_keys_def filter_eq_Cons_iff)
  have qin: "q \<in> set (codec_keys ps)" using Cons by simp
  show ?thesis
  proof (cases "q = f")
    case True
    then have "fixQuality rt this =
        Inr (this\<lparr>ContentType := Some (''image/'' @ f), edits := Some (JObject ps)\<rparr>)"
      using assms Cons acceptedValues_nonempty [of f]
      by (auto simp: fixQuality_def quality_keys_def Let_def)
    then show ?thesis using Cons True by simp
  next
    case False
    obtain v where v: "map_of ps q = Some v"
      using map_of_codec_key [OF qin] by blast
    let ?ps' = "delete_prop q (set_prop f v ps)"
    have run: "fixQuality rt this =
        Inr (this\<lparr>ContentType := Some (''image/'' @ f), edits := Some (JObject ?ps')\<rparr>)"
      using assms Cons False qf v acceptedValues_nonempty [of f]
      by (auto simp: fixQuality_def quality_keys_def Let_def)
    have len: "length (codec_keys ?ps') \<le> length (codec_keys ps)"
      using codec_keys_rename [OF assms(3) qin False] .
    have gone: "q \<notin> fst ` set ?ps'" by (simp add: keys_delete_prop)
    have moved: "map_of ?ps' f = map_of ps q"
      using False v by (simp add: map_of_delete_prop map_of_set_prop)
    have rest: "\<forall>k. k \<noteq> q \<and> k \<noteq> f \<longrightarrow> map_of ?ps' k = map_of ps k"
      by (simp add: map_of_delete_prop map_of_set_prop)
    show ?thesis
      using run len gone moved rest v Cons False
      by (intro exI [of _ ?ps']) auto
  qed
qed

text \<open>The example of the specification: the quality of \<^verbatim>\<open>jpeg\<close> moves to \<^verbatim>\<open>webp\<close>.\<close>

theorem fixQuality_rename_witness:
  "\<exists>ps'. fixQuality sample_platform
       (new_ImageRequest\<lparr>requestType := Some ''Custom'',
          edits := Some (JObject [(''jpeg'', JNum 80), (''toFormat'', JString ''webp'')]),
          outputFormat := Some (JString ''webp'')\<rparr>)
     = Inr (new_ImageRequest\<lparr>requestType := Some ''Custom'',
          edits := Some (JObject ps'),
          outputFormat := Some (JString ''webp''), ContentType := Some ''image/webp''\<rparr>) \<and>
     ''jpeg'' \<notin> fst ` set ps' \<and> map_of ps' ''webp'' = Some (JNum 80) \<and>
     map_of ps' ''toFormat'' = Some (JString ''webp'') \<and> length (codec_keys ps') \<le> 1"
proof -
  let ?ps = "[(''jpeg'', JNum 80), (''toFormat'', JString ''webp'')]"
  let ?req = "new_ImageRequest\<lparr>requestType := Some ''Custom'',
          edits := Some (JObject ?ps), outputFormat := Some (JString ''webp'')\<rparr>"
  have ck: "codec_keys ?ps = [''jpeg'']"
    by (simp add: codec_keys_def acceptedValues_def)
  have "requestType ?req \<in> {Some ''Custom'', Some ''Thumbor''}"
    and "outputFormat ?req = Some (JString ''webp'')"
    and "''webp'' \<in> set acceptedValues"
    and "edits ?req = Some (JObject ?ps)"
    by (simp_all add: acceptedValues_def)
  from fixQuality_rename [OF this, of sample_platform]
  obtain ps' where run: "fixQuality sample_platform ?req =
        Inr (?req\<lparr>ContentType := Some (''image/'' @ ''webp''), edits := Some (JObject ps')\<rparr>)"
    and len: "length (codec_keys ?ps) \<le> 1 \<longrightarrow> length (codec_keys ps') \<le> 1"
    and ren: "\<forall>q qs. codec_keys ?ps = q # qs \<and> q \<noteq> ''webp'' \<longrightarrow>
             q \<notin> fst ` set ps' \<and> map_of ?ps q \<noteq> None \<and> map_of ps' ''webp'' = map_of ?ps q \<and>
             (\<forall>k. k \<noteq> q \<and> k \<noteq> ''webp'' \<longrightarrow> map_of ps' k = map_of ?ps k)"
    by blast
  from ren ck have r: "''jpeg'' \<notin> fst ` set ps' \<and> map_of ps' ''webp'' = map_of ?ps ''jpeg'' \<and>
      (\<forall>k. k \<noteq> ''jpeg'' \<and> k \<noteq> ''webp'' \<longrightarrow> map_of ps' k = map_of ?ps k)"
    by simp
  then have "map_of ps' ''toFormat'' = map_of ?ps ''toFormat''"
    by simp
  with r len ck run show ?thesis
    by (intro exI [of _ ps']) (simp add: new_ImageRequest_def)
qed

text \<open>
  The claim as stated fails for edits with two codec keys: the first is renamed, the
  second stays, and the edits hold two codec keys after the block has run.
\<close>

theorem fixQuality_two_codec_keys:
  "fixQuality sample_platform
       (new_ImageRequest\<lparr>requestType := Some ''Custom'',
          edits := Some (JObject [(''jpeg'', JNum 80), (''png'', JNum 90)]),
          outputFormat := Some (JString ''webp'')\<rparr>)
     = Inr (new_ImageRequest\<lparr>requestType := Some ''Custom'',
          edits := Some (JObject [(''png'', JNum 90), (''webp'', JNum 80)]),
          outputFormat := Some (JString ''webp''), ContentType := Some ''image/webp''\<rparr>) \<and>
   codec_keys [(''png'', JNum 90), (''webp'', JNum 80)] = [''png'', ''webp'']"
  by (simp add: fixQuality_def quality_keys_def codec_keys_def acceptedValues_def
      new_ImageRequest_def delete_prop_def)

end
